theory Spec2Isabelle
  imports Complex_Main
begin

section \<open>Wind turbine grid simulator: configuration\<close>

text \<open>
  The simulator's numbers are JavaScript and Earth Engine doubles. They are modelled as
  real numbers: no rounding and no overflow. Every division of the per-day physics has a
  non-zero constant divisor; the one division of the client code whose divisor can be zero
  is modelled with its non-finite results further down.
\<close>

record physics =
  ROTOR_DIAMETER_M :: real
  SYSTEM_EFFICIENCY :: real
  AIR_DENSITY :: real
  MIN_WPD_THRESHOLD :: real
  MAX_GENERATION_KW :: real

definition CONFIG_PHYSICS :: physics where
  "CONFIG_PHYSICS =
     \<lparr>ROTOR_DIAMETER_M = 120, SYSTEM_EFFICIENCY = 0.40, AIR_DENSITY = 1.225,
      MIN_WPD_THRESHOLD = 200, MAX_GENERATION_KW = 3000\<rparr>"

section \<open>Per-image wind physics (the function mapped over \<open>dailyImages\<close>)\<close>

text \<open>
  One weather image, read at the pixel under the clicked point: the two bands
  \<open>100m_u_component_of_wind\<close> and \<open>100m_v_component_of_wind\<close>.
\<close>

record wind_image =
  u_component :: real
  v_component :: real

text \<open>Earth Engine's \<open>hypot\<close>, \<open>where\<close> on one pixel.\<close>

definition hypot :: "real \<Rightarrow> real \<Rightarrow> real" where
  "hypot a b = sqrt (a\<^sup>2 + b\<^sup>2)"

definition ee_where :: "real \<Rightarrow> bool \<Rightarrow> real \<Rightarrow> real" where
  "ee_where input test val = (if test then val else input)"

definition speed :: "wind_image \<Rightarrow> real" where
  "speed img = hypot (u_component img) (v_component img)"

definition wpd :: "wind_image \<Rightarrow> real" where
  "wpd img = (speed img) ^ 3 * (0.5 * AIR_DENSITY CONFIG_PHYSICS)"

definition radius :: real where
  "radius = ROTOR_DIAMETER_M CONFIG_PHYSICS / 2.0"

definition area :: real where
  "area = pi * (radius * radius)"

definition rawPowerW :: "wind_image \<Rightarrow> real" where
  "rawPowerW img = wpd img * area * SYSTEM_EFFICIENCY CONFIG_PHYSICS"

definition generationKW :: "wind_image \<Rightarrow> real" where
  "generationKW img =
     ee_where (min (rawPowerW img / 1000) (MAX_GENERATION_KW CONFIG_PHYSICS))
       (speed img < 3 \<or> speed img > 25) 0"

section \<open>The daily time series (\<open>dailyData\<close> of the click handler)\<close>

text \<open>
  \<open>processed.mean().reduceRegion(...)\<close>: the mean of each band over the images of the day,
  read at the point. A day without images has no bands, and both entries of the dictionary
  are null: that is \<open>None\<close> here. The divisor of a mean is the number of images, which the
  emptiness test keeps away from zero.
\<close>

record day_means =
  means_WPD :: real
  means_Generation_KW :: real

definition mean_list :: "real list \<Rightarrow> real" where
  "mean_list xs = sum_list xs / real (length xs)"

definition means :: "wind_image list \<Rightarrow> day_means option" where
  "means dailyImages =
     (if dailyImages = [] then None
      else Some \<lparr>means_WPD = mean_list (map wpd dailyImages),
                 means_Generation_KW = mean_list (map generationKW dailyImages)\<rparr>)"

record feature =
  time_start :: int
  WPD :: real
  Daily_KWh_Per_Turbine :: real

text \<open>
  The feature of day \<open>n\<close>. \<open>None\<close> is the feature whose \<open>WPD\<close> is null, the one that
  \<open>.filter(ee.Filter.notNull(['WPD']))\<close> drops. Times are milliseconds; a day has 86400000.
\<close>

definition day_feature :: "int \<Rightarrow> wind_image list \<Rightarrow> nat \<Rightarrow> feature option" where
  "day_feature startDate dailyImages n =
     (case means dailyImages of
        None \<Rightarrow> None
      | Some m \<Rightarrow>
          Some \<lparr>time_start = startDate + int n * 86400000,
                WPD = means_WPD m,
                Daily_KWh_Per_Turbine = means_Generation_KW m * 24\<rparr>)"

record point =
  lon :: real
  lat :: real

text \<open>
  What the platform supplies: the start of the year of data, the images of each day read
  at a point, and the entry \<open>building_presence\<close> of the count of qualifying structures
  within 5 km of a point (\<open>None\<close> when the dictionary is null or has no such entry).
\<close>

record platform =
  startDate :: int
  weatherSeries :: "point \<Rightarrow> nat \<Rightarrow> wind_image list"
  structureCount :: "point \<Rightarrow> nat option"

definition dailyData :: "platform \<Rightarrow> point \<Rightarrow> feature list" where
  "dailyData ee pt =
     List.map_filter (\<lambda>n. day_feature (startDate ee) (weatherSeries ee pt n) n) [0..<365]"

definition aggregate_mean :: "(feature \<Rightarrow> real) \<Rightarrow> feature list \<Rightarrow> real" where
  "aggregate_mean prop fs = mean_list (map prop fs)"

section \<open>Client-side numbers\<close>

text \<open>
  \<open>renderVisuals\<close> divides by the value of the load slider. In JavaScript a division by
  zero is no error: it yields an infinity or NaN, which then flows through
  \<open>Math.floor\<close>, \<open>Math.min\<close>, the multiplication and the comparison. Finite values are
  reals; the zero divisor is the positive zero.
\<close>

datatype jsnum = Fin real | PInf | NInf | NaN

fun js_div :: "jsnum \<Rightarrow> real \<Rightarrow> jsnum" where
  "js_div (Fin a) b =
     (if b \<noteq> 0 then Fin (a / b) else if 0 < a then PInf else if a < 0 then NInf else NaN)"
| "js_div PInf b = (if 0 \<le> b then PInf else NInf)"
| "js_div NInf b = (if 0 \<le> b then NInf else PInf)"
| "js_div NaN b = NaN"

fun js_times :: "jsnum \<Rightarrow> real \<Rightarrow> jsnum" where
  "js_times (Fin a) b = Fin (a * b)"
| "js_times PInf b = (if 0 < b then PInf else if b < 0 then NInf else NaN)"
| "js_times NInf b = (if 0 < b then NInf else if b < 0 then PInf else NaN)"
| "js_times NaN b = NaN"

fun Math_floor :: "jsnum \<Rightarrow> jsnum" where
  "Math_floor (Fin a) = Fin (of_int \<lfloor>a\<rfloor>)"
| "Math_floor x = x"

fun Math_min :: "jsnum \<Rightarrow> real \<Rightarrow> jsnum" where
  "Math_min (Fin a) b = Fin (min a b)"
| "Math_min PInf b = Fin b"
| "Math_min NInf b = NInf"
| "Math_min NaN b = NaN"

fun js_ge :: "jsnum \<Rightarrow> real \<Rightarrow> bool" where
  "js_ge (Fin a) b = (b \<le> a)"
| "js_ge PInf b = True"
| "js_ge NInf b = False"
| "js_ge NaN b = False"

definition Math_round :: "real \<Rightarrow> int" where
  "Math_round x = \<lfloor>x + 1 / 2\<rfloor>"

section \<open>Application state and user interface\<close>

text \<open>
  \<open>buildingOnlyLayer\<close> is a lazy image: the open-buildings mosaic clipped to 5 km around
  the point and masked by confidence and height. It is determined by the point.
  In \<open>app_state\<close> the field \<open>state_wpd\<close> is \<open>APP_STATE.wpd\<close> (the name \<open>wpd\<close> is taken by the
  band above); \<open>buildings\<close> is a pixel count, hence a natural number; null is \<open>None\<close>.
\<close>

datatype raster = BuildingOnlyLayer point

record app_state =
  state_wpd :: real
  kwhPerTurbine :: real
  buildings :: nat
  hasData :: bool
  timeSeriesData :: "feature list option"
  buildingRaster :: "raster option"
  centerPoint :: "point option"

text \<open>
  A slider as the script constructs it: \<open>ui.Slider({min, max, value, step})\<close>, read with
  \<open>getValue\<close>. The widget itself belongs to the toolkit, not to the script, and how it
  moves is not modelled: that a value lies within the declared range is a hypothesis
  wherever a theorem needs it. The script never sets a value itself.
\<close>

record slider =
  slider_min :: real
  slider_max :: real
  slider_value :: real
  slider_step :: real

definition getValue :: "slider \<Rightarrow> real" where
  "getValue s = slider_value s"

definition turbSlider0 :: slider where
  "turbSlider0 = \<lparr>slider_min = 1, slider_max = 10, slider_value = 1, slider_step = 1\<rparr>"

definition loadSlider0 :: slider where
  "loadSlider0 = \<lparr>slider_min = 0.5, slider_max = 30, slider_value = 1.5, slider_step = 0.5\<rparr>"

text \<open>
  Map layers, labels and charts keep the values they show; the formatting of a number
  as text (\<open>toLocaleString\<close>, \<open>toFixed\<close>) is the platform's and is not modelled.
  The powered layer is the fixed noise \<open>ee.Image.random(42)\<close> below the capped ratio,
  on building pixels. The labels, in the order of the constructors below:
  \<^item> the scanning notice of a click, and the error for a site without wind data;
  \<^item> the title and the line of the resource quality: rounded mean density, quality, colour;
  \<^item> the title of the grid feasibility and the rounded total generation per day;
  \<^item> the potential coverage: homes supported and buildings;
  \<^item> the status: full coverage, or partial coverage with the text of the percentage,
    which is either the text for more than 100 percent or the percentage with one decimal.
\<close>

datatype layer =
  Turbine_Location "point option"
| Powered_Households nat jsnum raster

datatype pct_text = Over_100 | Fixed_1 jsnum

datatype label =
  Scanning_Site
| Error_No_Wind_Data
| Resource_Quality_Title
| Resource_Quality int string string
| Grid_Feasibility_Title
| Avg_Generation int
| Potential_Coverage jsnum nat
| Status_Full_Coverage
| Status_Partial_Coverage pct_text

datatype chart =
  Houses_Chart "(int \<times> jsnum) list"
| Wpd_Chart "(int \<times> real \<times> real) list"

datatype turb_label = Turb_Label_Initial | Project_Scale real

datatype load_label = Load_Label_Initial | Avg_Home_Load real string

record world =
  APP_STATE :: app_state
  turbSlider :: slider
  loadSlider :: slider
  turbLabel :: turb_label
  loadLabel :: load_label
  layers :: "layer list"
  statsPanel :: "label list"
  chartPanel :: "chart list"
  mapCenter :: point

section \<open>\<open>renderVisuals\<close>\<close>

text \<open>The local variables of \<open>renderVisuals\<close>, as functions of what they are computed from.\<close>

definition totalDailyKWh :: "app_state \<Rightarrow> real \<Rightarrow> real" where
  "totalDailyKWh st numTurbines = kwhPerTurbine st * numTurbines"

definition homesSupported :: "app_state \<Rightarrow> real \<Rightarrow> real \<Rightarrow> jsnum" where
  "homesSupported st numTurbines consumption =
     Math_floor (js_div (Fin (totalDailyKWh st numTurbines)) consumption)"

definition coverageRatio :: "app_state \<Rightarrow> real \<Rightarrow> real \<Rightarrow> jsnum" where
  "coverageRatio st numTurbines consumption =
     (if buildings st > 0
      then js_div (homesSupported st numTurbines consumption) (real (buildings st))
      else Fin 0)"

definition cappedRatio :: "app_state \<Rightarrow> real \<Rightarrow> real \<Rightarrow> jsnum" where
  "cappedRatio st numTurbines consumption =
     Math_min (coverageRatio st numTurbines consumption) 1.0"

definition wpdColor :: "real \<Rightarrow> string" where
  "wpdColor meanWPD =
     (if meanWPD < 200 then ''black'' else if meanWPD < 400 then ''orange'' else ''green'')"

definition quality :: "real \<Rightarrow> string" where
  "quality meanWPD =
     (if meanWPD < 200 then ''Poor'' else if meanWPD < 400 then ''Good'' else ''Excellent'')"

definition pctVal :: "app_state \<Rightarrow> real \<Rightarrow> real \<Rightarrow> jsnum" where
  "pctVal st numTurbines consumption = js_times (coverageRatio st numTurbines consumption) 100"

definition pctText :: "app_state \<Rightarrow> real \<Rightarrow> real \<Rightarrow> pct_text" where
  "pctText st numTurbines consumption =
     (if js_ge (pctVal st numTurbines consumption) 100 then Over_100
      else Fixed_1 (pctVal st numTurbines consumption))"

definition status :: "app_state \<Rightarrow> real \<Rightarrow> real \<Rightarrow> label" where
  "status st numTurbines consumption =
     (if js_ge (pctVal st numTurbines consumption) 100 then Status_Full_Coverage
      else Status_Partial_Coverage (pctText st numTurbines consumption))"

definition houseChartData :: "feature list \<Rightarrow> real \<Rightarrow> real \<Rightarrow> (int \<times> jsnum) list" where
  "houseChartData fs numTurbines consumption =
     map (\<lambda>f. (time_start f,
                Math_floor (js_div (Fin (Daily_KWh_Per_Turbine f * numTurbines)) consumption)))
       fs"

definition wpdData :: "feature list \<Rightarrow> (int \<times> real \<times> real) list" where
  "wpdData fs = map (\<lambda>f. (time_start f, WPD f, MIN_WPD_THRESHOLD CONFIG_PHYSICS)) fs"

definition mapLayers :: "app_state \<Rightarrow> real \<Rightarrow> real \<Rightarrow> layer list" where
  "mapLayers st numTurbines consumption =
     Turbine_Location (centerPoint st) #
     (case buildingRaster st of
        None \<Rightarrow> []
      | Some r \<Rightarrow> [Powered_Households 42 (cappedRatio st numTurbines consumption) r])"

definition statsLabels :: "app_state \<Rightarrow> real \<Rightarrow> real \<Rightarrow> label list" where
  "statsLabels st numTurbines consumption =
     [Resource_Quality_Title,
      Resource_Quality (Math_round (state_wpd st)) (quality (state_wpd st))
        (wpdColor (state_wpd st)),
      Grid_Feasibility_Title,
      Avg_Generation (Math_round (totalDailyKWh st numTurbines)),
      Potential_Coverage (homesSupported st numTurbines consumption) (buildings st),
      status st numTurbines consumption]"

text \<open>
  A handler either returns or throws; either way it leaves a world behind. The only throw
  is the TypeError of \<open>APP_STATE.timeSeriesData.map\<close> on null, after the layers and the
  statistics have been drawn and the chart panel cleared.
\<close>

datatype error = TypeError

datatype outcome = Returned world | Threw error world

fun world_of :: "outcome \<Rightarrow> world" where
  "world_of (Returned w) = w"
| "world_of (Threw e w) = w"

definition renderVisuals :: "world \<Rightarrow> outcome" where
  "renderVisuals w =
     (if \<not> hasData (APP_STATE w) then Returned w
      else
        let st = APP_STATE w;
            numTurbines = getValue (turbSlider w);
            consumption = getValue (loadSlider w);
            w1 = w\<lparr>layers := mapLayers st numTurbines consumption,
                   statsPanel := statsLabels st numTurbines consumption,
                   chartPanel := []\<rparr>
        in case timeSeriesData st of
             None \<Rightarrow> Threw TypeError w1
           | Some fs \<Rightarrow>
               Returned (w1\<lparr>chartPanel :=
                 [Houses_Chart (houseChartData fs numTurbines consumption),
                  Wpd_Chart (wpdData fs)]\<rparr>))"

definition tier :: "real \<Rightarrow> string" where
  "tier lVal =
     (if lVal < 1 then ''(Basic)''
      else if lVal < 5 then ''(Standard Household)'' else ''(Heavy/Industrial)'')"

definition onParamsChange :: "world \<Rightarrow> outcome" where
  "onParamsChange w =
     (let tVal = getValue (turbSlider w);
          lVal = getValue (loadSlider w)
      in renderVisuals
           (w\<lparr>turbLabel := Project_Scale tVal, loadLabel := Avg_Home_Load lVal (tier lVal)\<rparr>))"

section \<open>The click handler\<close>

definition reset_state :: app_state where
  "reset_state =
     \<lparr>state_wpd = 0, kwhPerTurbine = 0, buildings = 0, hasData = False,
      timeSeriesData = None, buildingRaster = None, centerPoint = None\<rparr>"

text \<open>The synchronous part: the panels and layers are reset and the site is shown.\<close>

definition onClick_begin :: "point \<Rightarrow> world \<Rightarrow> world" where
  "onClick_begin pt w =
     w\<lparr>statsPanel := [Scanning_Site],
       chartPanel := [],
       APP_STATE := reset_state\<lparr>centerPoint := Some pt\<rparr>,
       layers := [Turbine_Location (Some pt)]\<rparr>"

text \<open>
  The callbacks of \<open>evaluate\<close>, run to completion: the count of days with data decides
  between the error label and the update of \<open>APP_STATE\<close> followed by \<open>renderVisuals\<close>.
\<close>

definition onClick_evaluate :: "platform \<Rightarrow> point \<Rightarrow> world \<Rightarrow> outcome" where
  "onClick_evaluate ee pt w =
     (let count = length (dailyData ee pt)
      in if count = 0 then Returned (w\<lparr>statsPanel := [Error_No_Wind_Data]\<rparr>)
         else
           let meanWPD = aggregate_mean WPD (dailyData ee pt);
               meanGen = aggregate_mean Daily_KWh_Per_Turbine (dailyData ee pt);
               bCount = structureCount ee pt
           in renderVisuals
                (w\<lparr>mapCenter := pt,
                   APP_STATE := (APP_STATE w)
                     \<lparr>state_wpd := meanWPD,
                      kwhPerTurbine := meanGen,
                      buildings := (case bCount of
                                      None \<Rightarrow> 0
                                    | Some c \<Rightarrow> if c \<noteq> 0 then c else 0),
                      timeSeriesData := Some (dailyData ee pt),
                      buildingRaster := Some (BuildingOnlyLayer pt),
                      hasData := True\<rparr>\<rparr>))"

definition onClick :: "platform \<Rightarrow> point \<Rightarrow> world \<Rightarrow> outcome" where
  "onClick ee pt w = onClick_evaluate ee pt (onClick_begin pt w)"

text \<open>
  The \<open>APP_STATE\<close> that the callbacks leave behind when there is data (used to state what
  \<open>onClick\<close> returns).
\<close>

definition loaded_state :: "platform \<Rightarrow> point \<Rightarrow> app_state" where
  "loaded_state ee pt =
     \<lparr>state_wpd = aggregate_mean WPD (dailyData ee pt),
      kwhPerTurbine = aggregate_mean Daily_KWh_Per_Turbine (dailyData ee pt),
      buildings = (case structureCount ee pt of None \<Rightarrow> 0 | Some c \<Rightarrow> c),
      hasData = True,
      timeSeriesData = Some (dailyData ee pt),
      buildingRaster = Some (BuildingOnlyLayer pt),
      centerPoint = Some pt\<rparr>"

definition initial_world :: world where
  "initial_world =
     \<lparr>APP_STATE = reset_state, turbSlider = turbSlider0, loadSlider = loadSlider0,
      turbLabel = Turb_Label_Initial, loadLabel = Load_Label_Initial,
      layers = [], statsPanel = [], chartPanel = [],
      mapCenter = \<lparr>lon = 45.3409, lat = 2.0306\<rparr>\<rparr>"

section \<open>Concrete inputs\<close>

definition sample_3_4 :: wind_image where
  "sample_3_4 = \<lparr>u_component = 3, v_component = 4\<rparr>"

definition site :: point where
  "site = \<lparr>lon = 45.3409, lat = 2.0306\<rparr>"

text \<open>A loaded state with a given daily energy per turbine and building count.\<close>

definition example_state :: "real \<Rightarrow> nat \<Rightarrow> app_state" where
  "example_state kwh b =
     \<lparr>state_wpd = 250, kwhPerTurbine = kwh, buildings = b, hasData = True,
      timeSeriesData = Some [], buildingRaster = Some (BuildingOnlyLayer site),
      centerPoint = Some site\<rparr>"

definition example_world :: "real \<Rightarrow> nat \<Rightarrow> world" where
  "example_world kwh b = initial_world\<lparr>APP_STATE := example_state kwh b\<rparr>"


definition zero_turbines :: world where
  "zero_turbines = (example_world 225 100)\<lparr>turbSlider := turbSlider0\<lparr>slider_value := 0\<rparr>\<rparr>"


text \<open>A platform without wind data, and one with the sample above on the first day only;
  both report no buildings (a click on the ocean).\<close>

definition calm :: platform where
  "calm = \<lparr>startDate = 0, weatherSeries = (\<lambda>pt n. []), structureCount = (\<lambda>pt. None)\<rparr>"

definition one_day :: platform where
  "one_day =
     \<lparr>startDate = 0,
      weatherSeries = (\<lambda>pt n. if n = 0 then [sample_3_4] else []),
      structureCount = (\<lambda>pt. None)\<rparr>"

section \<open>Helper facts\<close>

lemma speed_nonneg: "0 \<le> speed img"
  by (simp add: speed_def hypot_def)

lemma area_eq: "area = 3600 * pi"
  by (simp add: area_def radius_def CONFIG_PHYSICS_def)

lemma rawPowerW_nonneg: "0 \<le> rawPowerW img"
  using speed_nonneg [of img]
  by (simp add: rawPowerW_def wpd_def area_eq CONFIG_PHYSICS_def)

lemma hypot_3_4: "hypot 3 4 = 5"
proof -
  have "(3::real)\<^sup>2 + 4\<^sup>2 = 5\<^sup>2" by simp
  then show ?thesis unfolding hypot_def by (simp only: real_sqrt_abs)
qed

lemma hypot_0: "hypot 0 b = \<bar>b\<bar>" "hypot a 0 = \<bar>a\<bar>"
  by (simp_all add: hypot_def)

subsection \<open>An enclosure of \<open>pi\<close>\<close>

text \<open>
  The arctangent lies between consecutive partial sums of its alternating series, and
  Machin's formula turns two such enclosures into one of \<open>pi\<close>.
\<close>

lemma arctan_partial_sums:
  fixes x :: real
  assumes x0: "0 \<le> x" and x1: "x \<le> 1"
  shows "(\<Sum>i<2*n. (-1)^i * (1 / real (i*2+1) * x^(i*2+1))) \<le> arctan x"
    and "arctan x \<le> (\<Sum>i<2*n+1. (-1)^i * (1 / real (i*2+1) * x^(i*2+1)))"
proof -
  let ?a = "\<lambda>k. 1 / real (k*2+1) * x^(k*2+1)"
  have ax: "\<bar>x\<bar> \<le> 1" using x0 x1 by simp
  have lim: "?a \<longlonglongrightarrow> 0" by (rule zeroseq_arctan_series [OF ax])
  have pos: "0 \<le> ?a k" for k using x0 by simp
  have mono: "?a (Suc k) \<le> ?a k" for k
  proof -
    have p: "x^(Suc k*2+1) \<le> x^(k*2+1)"
      using x0 x1 by (intro power_decreasing) simp_all
    have q: "1 / real (Suc k*2+1) \<le> 1 / real (k*2+1)"
      by (simp add: field_simps)
    show ?thesis
      using x0 by (intro mult_mono p q) simp_all
  qed
  have ser: "arctan x = (\<Sum>k. (-1)^k * ?a k)" by (rule arctan_series [OF ax])
  from summable_Leibniz'(2) [OF lim pos mono, of n]
  show "(\<Sum>i<2*n. (-1)^i * ?a i) \<le> arctan x" by (simp add: ser)
  from summable_Leibniz'(4) [OF lim pos mono, of n]
  show "arctan x \<le> (\<Sum>i<2*n+1. (-1)^i * ?a i)" by (simp add: ser)
qed

lemma pi_enclosure: "3.14159 < pi" "pi < 3.1416"
proof -
  have m: "pi = 16 * arctan (1/5) - 4 * arctan (1/239)" using machin by simp
  have l5: "(1/5 - (1/5)^3/3 + (1/5)^5/5 - (1/5)^7/7 :: real) \<le> arctan (1/5)"
    using arctan_partial_sums(1) [of "1/5" 2] by (simp add: eval_nat_numeral)
  have u5: "arctan (1/5) \<le> (1/5 - (1/5)^3/3 + (1/5)^5/5 - (1/5)^7/7 + (1/5)^9/9 :: real)"
    using arctan_partial_sums(2) [of "1/5" 2] by (simp add: eval_nat_numeral)
  have l239: "(1/239 - (1/239)^3/3 :: real) \<le> arctan (1/239)"
    using arctan_partial_sums(1) [of "1/239" 1] by (simp add: eval_nat_numeral)
  have u239: "arctan (1/239) \<le> (1/239 :: real)"
    using arctan_partial_sums(2) [of "1/239" 0] by simp
  show "3.14159 < pi" using l5 u239 unfolding m by (simp add: eval_nat_numeral)
  show "pi < 3.1416" using u5 l239 unfolding m by (simp add: eval_nat_numeral)
qed

subsection \<open>The sample \<open>u = 3\<close>, \<open>v = 4\<close>\<close>

lemma speed_3_4: "speed sample_3_4 = 5"
  by (simp add: speed_def sample_3_4_def hypot_3_4)

lemma wpd_3_4: "wpd sample_3_4 = 76.5625"
  by (simp add: wpd_def speed_3_4 CONFIG_PHYSICS_def)

lemma rawPowerW_3_4: "rawPowerW sample_3_4 = 110250 * pi"
  by (simp add: rawPowerW_def wpd_3_4 area_eq CONFIG_PHYSICS_def)

lemma generationKW_3_4: "generationKW sample_3_4 = 110.25 * pi"
proof -
  have "110.25 * pi \<le> 3000" using pi_enclosure(2) by simp
  then show ?thesis
    by (simp add: generationKW_def ee_where_def speed_3_4 rawPowerW_3_4 CONFIG_PHYSICS_def)
qed

lemma day_feature_3_4:
  "day_feature s [sample_3_4] n =
     Some \<lparr>time_start = s + int n * 86400000, WPD = 76.5625,
           Daily_KWh_Per_Turbine = 2646 * pi\<rparr>"
  by (simp add: day_feature_def means_def mean_list_def wpd_3_4 generationKW_3_4)

subsection \<open>Sign and cap of the raw power\<close>

lemma rawPowerW_pos: "0 < speed img \<Longrightarrow> 0 < rawPowerW img"
  by (simp add: rawPowerW_def wpd_def area_eq CONFIG_PHYSICS_def)

lemma MAX_GENERATION_KW_eq: "MAX_GENERATION_KW CONFIG_PHYSICS = 3000"
  by (simp add: CONFIG_PHYSICS_def)

subsection \<open>What the handlers return\<close>



lemma onClick_no_data:
  "dailyData ee pt = [] \<Longrightarrow>
   onClick ee pt w = Returned ((onClick_begin pt w)\<lparr>statsPanel := [Error_No_Wind_Data]\<rparr>)"
  by (simp add: onClick_def onClick_evaluate_def)

lemma onClick_data:
  "dailyData ee pt \<noteq> [] \<Longrightarrow>
   onClick ee pt w =
     Returned (w\<lparr>APP_STATE := loaded_state ee pt,
                 mapCenter := pt,
                 layers := mapLayers (loaded_state ee pt) (getValue (turbSlider w)) (getValue (loadSlider w)),
                 statsPanel := statsLabels (loaded_state ee pt) (getValue (turbSlider w)) (getValue (loadSlider w)),
                 chartPanel := [Houses_Chart (houseChartData (dailyData ee pt) (getValue (turbSlider w)) (getValue (loadSlider w))),
                                Wpd_Chart (wpdData (dailyData ee pt))]\<rparr>)"
  by (simp add: onClick_def onClick_evaluate_def onClick_begin_def Let_def reset_state_def
      renderVisuals_def loaded_state_def split: option.splits)

lemma onParamsChange_after_click:
  "\<exists>w''. onParamsChange ((world_of (onClick ee pt w))\<lparr>turbSlider := ts, loadSlider := ls\<rparr>)
           = Returned w''"
  by (cases "dailyData ee pt = []")
     (simp_all add: onClick_no_data onClick_data onClick_begin_def reset_state_def
        loaded_state_def onParamsChange_def renderVisuals_def Let_def)

lemma status_Fin:
  "coverageRatio st n c = Fin r \<Longrightarrow>
   status st n c = (if 1 \<le> r then Status_Full_Coverage
                    else Status_Partial_Coverage (Fixed_1 (Fin (r * 100))))"
  by (simp add: status_def pctText_def pctVal_def)

subsection \<open>Days with and without data\<close>

lemma dailyData_empty_iff:
  "dailyData ee pt = [] \<longleftrightarrow> (\<forall>n<365. weatherSeries ee pt n = [])"
  by (auto simp add: dailyData_def map_filter_def filter_empty_conv day_feature_def means_def
      simp del: upt_rec_numeral split: option.splits if_splits)

lemma dailyData_calm: "dailyData calm pt = []"
  by (simp add: dailyData_empty_iff calm_def)

lemma upt_365: "[0..<365] = 0 # [Suc 0..<365]"
  by (rule upt_conv_Cons) simp

lemma dailyData_one_day:
  "dailyData one_day pt =
     [\<lparr>time_start = 0, WPD = 76.5625, Daily_KWh_Per_Turbine = 2646 * pi\<rparr>]"
proof -
  have rest: "List.map_filter (\<lambda>n. day_feature 0 (if n = 0 then [sample_3_4] else []) n)
      [Suc 0..<365] = []"
    by (simp add: map_filter_def filter_empty_conv day_feature_def means_def
        del: upt_rec_numeral)
  show ?thesis
    unfolding dailyData_def one_day_def upt_365
    using rest by (simp add: map_filter_simps day_feature_3_4 del: upt_rec_numeral)
qed

subsection \<open>The example states and worlds\<close>

lemma homes_75: "homesSupported (example_state 75 b) 1 (3/2) = Fin 50"
  by (simp add: homesSupported_def totalDailyKWh_def example_state_def)

lemma homes_225: "homesSupported (example_state 225 b) 1 (3/2) = Fin 150"
  by (simp add: homesSupported_def totalDailyKWh_def example_state_def)

lemma ratio_75: "coverageRatio (example_state 75 100) 1 (3/2) = Fin (1/2)"
  by (simp add: coverageRatio_def example_state_def homesSupported_def totalDailyKWh_def)

lemma ratio_225: "coverageRatio (example_state 225 100) 1 (3/2) = Fin (3/2)"
  by (simp add: coverageRatio_def example_state_def homesSupported_def totalDailyKWh_def)

lemma example_state_loaded:
  "hasData (example_state kwh b)" "timeSeriesData (example_state kwh b) = Some []"
  by (simp_all add: example_state_def)


lemma zero_turbines_state:
  "APP_STATE zero_turbines = example_state 225 100"
  "getValue (turbSlider zero_turbines) = 0"
  "getValue (loadSlider zero_turbines) = 3/2"
  by (simp_all add: zero_turbines_def example_world_def initial_world_def turbSlider0_def
      loadSlider0_def getValue_def)

lemma zero_turbines_loaded:
  "hasData (APP_STATE zero_turbines)" "timeSeriesData (APP_STATE zero_turbines) = Some []"
  by (simp_all add: zero_turbines_state example_state_loaded)


subsection \<open>The sliders\<close>






section \<open>The power curve\<close>

text \<open>
  C1. For every wind sample the speed is \<open>sqrt (u\<^sup>2 + v\<^sup>2)\<close>; when it is strictly below the
  cut-in speed 3 or strictly above the cut-out speed 25 the generation is 0, and otherwise
  the generation is the smaller of the raw power in kW and the cap \<open>MAX_GENERATION_KW\<close>,
  which is 3000.
\<close>

theorem generationKW_power_curve:
  "speed img = sqrt ((u_component img)\<^sup>2 + (v_component img)\<^sup>2)
   \<and> MAX_GENERATION_KW CONFIG_PHYSICS = 3000
   \<and> (speed img < 3 \<or> speed img > 25 \<longrightarrow> generationKW img = 0)
   \<and> (\<not> (speed img < 3 \<or> speed img > 25) \<longrightarrow>
        generationKW img = min (rawPowerW img / 1000) (MAX_GENERATION_KW CONFIG_PHYSICS))"
  by (simp add: generationKW_def ee_where_def speed_def hypot_def CONFIG_PHYSICS_def)

text \<open>Below the cut-in speed, above the cut-out speed, and inside the curve at speed 5.\<close>

theorem generationKW_power_curve_witness:
  "generationKW \<lparr>u_component = 0, v_component = 2\<rparr> = 0
   \<and> generationKW \<lparr>u_component = 26, v_component = 0\<rparr> = 0
   \<and> generationKW \<lparr>u_component = 3, v_component = 4\<rparr>
       = min (rawPowerW \<lparr>u_component = 3, v_component = 4\<rparr> / 1000) 3000"
  using generationKW_power_curve [of "\<lparr>u_component = 0, v_component = 2\<rparr>"]
        generationKW_power_curve [of "\<lparr>u_component = 26, v_component = 0\<rparr>"]
        generationKW_power_curve [of "\<lparr>u_component = 3, v_component = 4\<rparr>"]
  by (simp add: speed_def hypot_0 hypot_3_4)

text \<open>
  C2. For every wind sample, whatever its components, the generation of one turbine lies
  between 0 and \<open>MAX_GENERATION_KW\<close>.
\<close>

theorem generationKW_bounds:
  "0 \<le> generationKW img \<and> generationKW img \<le> MAX_GENERATION_KW CONFIG_PHYSICS"
  using rawPowerW_nonneg [of img]
  by (simp add: generationKW_def ee_where_def CONFIG_PHYSICS_def)

theorem generationKW_bounds_witness:
  "0 \<le> generationKW sample_3_4 \<and> generationKW sample_3_4 \<le> 3000"
  using generationKW_bounds [of sample_3_4] by (simp add: CONFIG_PHYSICS_def)

text \<open>
  C10. A sample whose speed is exactly the cut-in speed 3 or exactly the cut-out speed 25
  is not zeroed: its generation is the smaller of the raw power in kW and the cap, and
  it is positive.
\<close>

theorem generationKW_boundary_inclusive:
  "speed img = 3 \<or> speed img = 25 \<Longrightarrow>
   generationKW img = min (rawPowerW img / 1000) (MAX_GENERATION_KW CONFIG_PHYSICS)
   \<and> 0 < generationKW img"
proof -
  assume b: "speed img = 3 \<or> speed img = 25"
  then have "0 < speed img" by auto
  then have "0 < rawPowerW img" by (rule rawPowerW_pos)
  moreover have "generationKW img = min (rawPowerW img / 1000) (MAX_GENERATION_KW CONFIG_PHYSICS)"
    using b by (auto simp add: generationKW_def ee_where_def)
  ultimately show ?thesis by (simp add: CONFIG_PHYSICS_def)
qed

text \<open>A sample at the cut-in speed and one at the cut-out speed.\<close>

theorem generationKW_boundary_inclusive_witness:
  "generationKW \<lparr>u_component = 3, v_component = 0\<rparr>
     = min (rawPowerW \<lparr>u_component = 3, v_component = 0\<rparr> / 1000) 3000
   \<and> 0 < generationKW \<lparr>u_component = 3, v_component = 0\<rparr>
   \<and> generationKW \<lparr>u_component = 0, v_component = 25\<rparr>
     = min (rawPowerW \<lparr>u_component = 0, v_component = 25\<rparr> / 1000) 3000
   \<and> 0 < generationKW \<lparr>u_component = 0, v_component = 25\<rparr>"
proof -
  have cut_in: "speed \<lparr>u_component = 3, v_component = 0\<rparr> = 3
      \<or> speed \<lparr>u_component = 3, v_component = 0\<rparr> = 25"
    by (simp add: speed_def hypot_0)
  have cut_out: "speed \<lparr>u_component = 0, v_component = 25\<rparr> = 3
      \<or> speed \<lparr>u_component = 0, v_component = 25\<rparr> = 25"
    by (simp add: speed_def hypot_0)
  show ?thesis
    using generationKW_boundary_inclusive [OF cut_in, unfolded MAX_GENERATION_KW_eq]
          generationKW_boundary_inclusive [OF cut_out, unfolded MAX_GENERATION_KW_eq]
    by blast
qed

section \<open>One day with the single sample \<open>u = 3\<close>, \<open>v = 4\<close>\<close>

text \<open>
  C6, as the specification states it, reading each \<open>\<approx>\<close> as agreement within one unit of
  the last digit given. The daily energy of the day is \<open>2646 * pi\<close>, about 8312.65 kWh,
  which is more than one away from the 8311 of the claim (8311 is 24 times the shortened
  figure 346.3).
\<close>

theorem single_sample_daily_energy_not_8311:
  "map_option Daily_KWh_Per_Turbine (day_feature 0 [\<lparr>u_component = 3, v_component = 4\<rparr>] 0)
     = Some (2646 * pi)
   \<and> \<not> \<bar>2646 * pi - 8311\<bar> \<le> 1"
  using pi_enclosure(1) day_feature_3_4 [of 0 0]
  by (simp add: sample_3_4_def abs_le_iff)

text \<open>
  C6, amended. With the default constants the sample has speed 5, wind power density
  76.5625 watts per square metre (76.56 to the digits given), swept area within 0.1 of
  11309.7 square metres, raw power
  and generation within 0.1 of 346.3 kW and below the cap; the feature of the day carries
  the mean density and 24 times the mean generation, which is within 0.1 of 8312.6 kWh.
\<close>

theorem single_sample_day_values:
  "speed sample_3_4 = 5
   \<and> \<bar>wpd sample_3_4 - 76.56\<bar> \<le> 0.01
   \<and> \<bar>area - 11309.7\<bar> \<le> 0.1
   \<and> \<bar>rawPowerW sample_3_4 / 1000 - 346.3\<bar> \<le> 0.1
   \<and> \<bar>generationKW sample_3_4 - 346.3\<bar> \<le> 0.1
   \<and> generationKW sample_3_4 < MAX_GENERATION_KW CONFIG_PHYSICS
   \<and> map_option WPD (day_feature s [sample_3_4] n) = Some (wpd sample_3_4)
   \<and> map_option Daily_KWh_Per_Turbine (day_feature s [sample_3_4] n)
       = Some (generationKW sample_3_4 * 24)
   \<and> \<bar>generationKW sample_3_4 * 24 - 8312.6\<bar> \<le> 0.1"
  using pi_enclosure
  by (simp add: speed_3_4 wpd_3_4 area_eq rawPowerW_3_4 generationKW_3_4 day_feature_3_4
      CONFIG_PHYSICS_def abs_le_iff)

theorem single_sample_day_values_witness:
  "map_option Daily_KWh_Per_Turbine (day_feature 0 [sample_3_4] 0) = Some (2646 * pi)
   \<and> \<bar>2646 * pi - 8312.6\<bar> \<le> 0.1"
  using single_sample_day_values [of 0 0] by (simp add: generationKW_3_4)

section \<open>Building coverage in \<open>renderVisuals\<close>\<close>

text \<open>
  C3. The coverage ratio never divides by zero: with a building count of 0 it is 0, and
  with a positive count it is the number of homes supported divided by the count. The
  click handler always returns, a click that finds no buildings (the ocean) leaves a
  building count of 0, and the handler of a slider change returns after it whatever the
  sliders then hold.
\<close>

theorem coverageRatio_guards_zero_buildings:
  "(buildings st = 0 \<longrightarrow> coverageRatio st numTurbines consumption = Fin 0)
   \<and> (0 < buildings st \<longrightarrow>
        coverageRatio st numTurbines consumption
          = js_div (homesSupported st numTurbines consumption) (real (buildings st)))
   \<and> (0 < buildings st \<longrightarrow> homesSupported st numTurbines consumption = Fin h \<longrightarrow>
        coverageRatio st numTurbines consumption = Fin (h / real (buildings st)))
   \<and> (\<exists>w'. onClick ee pt w = Returned w')
   \<and> (structureCount ee pt = None \<longrightarrow> buildings (APP_STATE (world_of (onClick ee pt w))) = 0)
   \<and> (\<exists>w''. onParamsChange
                ((world_of (onClick ee pt w))\<lparr>turbSlider := ts, loadSlider := ls\<rparr>)
              = Returned w'')"
proof -
  have ret: "\<exists>w'. onClick ee pt w = Returned w'"
    by (cases "dailyData ee pt = []") (simp_all add: onClick_no_data onClick_data)
  have ocean: "buildings (APP_STATE (world_of (onClick ee pt w))) = 0"
    if "structureCount ee pt = None"
    using that
    by (cases "dailyData ee pt = []")
       (simp_all add: onClick_no_data onClick_data onClick_begin_def reset_state_def
          loaded_state_def)
  show ?thesis
    using ret ocean
      onParamsChange_after_click [where ee = ee and pt = pt and w = w and ts = ts and ls = ls]
    by (simp add: coverageRatio_def)
qed

text \<open>
  Fifty homes supported and no building give the ratio 0; 150 homes and 100 buildings
  give 1.5; the ocean click with one day of wind returns with no building.
\<close>

theorem coverageRatio_guards_zero_buildings_witness:
  "homesSupported (example_state 75 0) 1 (3/2) = Fin 50
   \<and> coverageRatio (example_state 75 0) 1 (3/2) = Fin 0
   \<and> coverageRatio (example_state 225 100) 1 (3/2) = Fin (150 / 100)
   \<and> (\<exists>w'. onClick one_day site initial_world = Returned w')
   \<and> buildings (APP_STATE (world_of (onClick one_day site initial_world))) = 0"
proof -
  note a = coverageRatio_guards_zero_buildings
             [where st = "example_state 75 0" and numTurbines = 1 and consumption = "3/2"
                and h = 50 and ee = one_day and pt = site and w = initial_world
                and ts = turbSlider0 and ls = loadSlider0]
  note b = coverageRatio_guards_zero_buildings
             [where st = "example_state 225 100" and numTurbines = 1 and consumption = "3/2"
                and h = 150 and ee = one_day and pt = site and w = initial_world
                and ts = turbSlider0 and ls = loadSlider0]
  have b0: "buildings (example_state 75 0) = 0" by (simp add: example_state_def)
  have b100: "0 < buildings (example_state 225 100)" "real (buildings (example_state 225 100)) = 100"
    by (simp_all add: example_state_def)
  have oc: "structureCount one_day site = None" by (simp add: one_day_def)
  note a' = a [THEN conjunct2, THEN conjunct2, THEN conjunct2]
  have g2: "coverageRatio (example_state 75 0) 1 (3/2) = Fin 0"
    by (rule a [THEN conjunct1, THEN mp, OF b0])
  have g3: "coverageRatio (example_state 225 100) 1 (3/2) = Fin (150 / 100)"
    using b [THEN conjunct2, THEN conjunct2, THEN conjunct1, THEN mp, OF b100(1), THEN mp,
        OF homes_225]
    by (simp only: b100(2))
  have g4: "\<exists>w'. onClick one_day site initial_world = Returned w'"
    by (rule a' [THEN conjunct1])
  have g5: "buildings (APP_STATE (world_of (onClick one_day site initial_world))) = 0"
    by (rule a' [THEN conjunct2, THEN conjunct1, THEN mp, OF oc])
  show ?thesis using homes_75 [of 0] g2 g3 g4 g5 by (intro conjI)
qed

text \<open>
  C4. For at least one turbine and a positive household load, the total daily energy is
  the mean generation per turbine times the number of turbines, and the number of homes
  supported is the floor of the total divided by the load.
\<close>

theorem homesSupported_floor:
  "1 \<le> numTurbines \<Longrightarrow> 0 < consumption \<Longrightarrow>
   totalDailyKWh st numTurbines = kwhPerTurbine st * numTurbines
   \<and> homesSupported st numTurbines consumption
       = Fin (of_int \<lfloor>totalDailyKWh st numTurbines / consumption\<rfloor>)"
  by (simp add: totalDailyKWh_def homesSupported_def)

theorem homesSupported_floor_witness:
  "totalDailyKWh (example_state 225 100) 1 = 225
   \<and> homesSupported (example_state 225 100) 1 (3/2) = Fin 150"
  using homesSupported_floor [of 1 "3/2" "example_state 225 100"]
  by (simp add: example_state_def)

text \<open>
  C5. The capped ratio is the smaller of the coverage ratio and 1, and it is what the
  powered layer draws; the status is decided on the ratio before the cap: a ratio of at
  least 1 reports full coverage (the text is the one for more than 100 percent) and a
  ratio below 1 reports partial coverage with the percentage of the ratio itself. With
  150 homes supported and 100 buildings the ratio is 1.5, the capped ratio 1 and the
  status full coverage.
\<close>

theorem cappedRatio_and_status:
  "cappedRatio st n c = Math_min (coverageRatio st n c) 1
   \<and> (coverageRatio st n c = Fin r \<longrightarrow> cappedRatio st n c = Fin (min r 1))
   \<and> (coverageRatio st n c = Fin r \<longrightarrow> 1 \<le> r \<longrightarrow>
        status st n c = Status_Full_Coverage \<and> pctText st n c = Over_100)
   \<and> (coverageRatio st n c = Fin r \<longrightarrow> r < 1 \<longrightarrow>
        status st n c = Status_Partial_Coverage (Fixed_1 (Fin (r * 100))))
   \<and> (homesSupported st n c = Fin 150 \<longrightarrow> buildings st = 100 \<longrightarrow>
        coverageRatio st n c = Fin 1.5 \<and> cappedRatio st n c = Fin 1
        \<and> status st n c = Status_Full_Coverage)
   \<and> (buildingRaster st = Some img \<longrightarrow>
        mapLayers st n c
          = [Turbine_Location (centerPoint st), Powered_Households 42 (cappedRatio st n c) img])
   \<and> last (statsLabels st n c) = status st n c"
proof -
  have spec_case: "coverageRatio st n c = Fin 1.5 \<and> cappedRatio st n c = Fin 1
        \<and> status st n c = Status_Full_Coverage"
    if h: "homesSupported st n c = Fin 150" and b: "buildings st = 100"
  proof -
    have r: "coverageRatio st n c = Fin 1.5" using h b by (simp add: coverageRatio_def)
    show ?thesis using r status_Fin [OF r] by (simp add: cappedRatio_def)
  qed
  show ?thesis
    using spec_case
    by (simp add: cappedRatio_def status_Fin pctText_def pctVal_def mapLayers_def statsLabels_def)
qed

text \<open>Full coverage at 150 homes for 100 buildings, partial coverage (50 percent) at 50.\<close>

theorem cappedRatio_and_status_witness:
  "coverageRatio (example_state 225 100) 1 (3/2) = Fin (3/2)
   \<and> cappedRatio (example_state 225 100) 1 (3/2) = Fin 1
   \<and> status (example_state 225 100) 1 (3/2) = Status_Full_Coverage
   \<and> cappedRatio (example_state 75 100) 1 (3/2) = Fin (1/2)
   \<and> status (example_state 75 100) 1 (3/2) = Status_Partial_Coverage (Fixed_1 (Fin 50))"
  using cappedRatio_and_status [of "example_state 225 100" 1 "3/2" "3/2" "BuildingOnlyLayer site"]
        cappedRatio_and_status [of "example_state 75 100" 1 "3/2" "1/2" "BuildingOnlyLayer site"]
  by (simp add: ratio_225 ratio_75)

section \<open>The annual summary of the click handler\<close>

text \<open>
  C7. When no day of the year has data the click handler shows the label for missing wind
  data and computes no mean: \<open>APP_STATE\<close> stays reset. With at least one daily record it
  stores the arithmetic mean of each field over all records. There is no record exactly
  when no day has an image.
\<close>

theorem onClick_annual_summary:
  "(dailyData ee pt = [] \<longrightarrow>
      onClick ee pt w = Returned ((onClick_begin pt w)\<lparr>statsPanel := [Error_No_Wind_Data]\<rparr>)
      \<and> APP_STATE (world_of (onClick ee pt w)) = reset_state\<lparr>centerPoint := Some pt\<rparr>)
   \<and> (dailyData ee pt \<noteq> [] \<longrightarrow>
        (\<exists>w'. onClick ee pt w = Returned w'
           \<and> hasData (APP_STATE w')
           \<and> state_wpd (APP_STATE w')
               = sum_list (map WPD (dailyData ee pt)) / real (length (dailyData ee pt))
           \<and> kwhPerTurbine (APP_STATE w')
               = sum_list (map Daily_KWh_Per_Turbine (dailyData ee pt))
                   / real (length (dailyData ee pt))
           \<and> Error_No_Wind_Data \<notin> set (statsPanel w')))
   \<and> (dailyData ee pt = [] \<longleftrightarrow> (\<forall>n<365. weatherSeries ee pt n = []))"
proof -
  have e: "dailyData ee pt = [] \<longleftrightarrow> (\<forall>n<365. weatherSeries ee pt n = [])"
    by (rule dailyData_empty_iff)
  show ?thesis
    by (cases "dailyData ee pt = []")
       (simp_all add: onClick_no_data onClick_data onClick_begin_def loaded_state_def
          aggregate_mean_def mean_list_def statsLabels_def status_def e [symmetric])
qed

theorem onClick_annual_summary_witness:
  "onClick calm site initial_world
     = Returned ((onClick_begin site initial_world)\<lparr>statsPanel := [Error_No_Wind_Data]\<rparr>)
   \<and> hasData (APP_STATE (world_of (onClick one_day site initial_world)))
   \<and> state_wpd (APP_STATE (world_of (onClick one_day site initial_world))) = 76.5625
   \<and> kwhPerTurbine (APP_STATE (world_of (onClick one_day site initial_world))) = 2646 * pi"
  using onClick_annual_summary [of calm site initial_world]
        onClick_annual_summary [of one_day site initial_world]
  by (auto simp add: dailyData_calm dailyData_one_day)

section \<open>Scenario parameters\<close>





section \<open>Re-invocation\<close>

text \<open>
  C9. Evaluation is idempotent and keeps no hidden state. Clicking the same point again
  on the same platform data gives the same outcome; rendering again, or handling a
  slider change again, gives the same outcome; rendering changes neither \<open>APP_STATE\<close> nor
  the sliders; the outcome of a click does not depend on the previous \<open>APP_STATE\<close>, layers
  or panels, and with data loaded the outcome of rendering does not depend on the
  previous layers or panels. (That equal inputs give equal outputs is built into the
  model: the source draws its only random numbers from the fixed seed 42.)
\<close>

theorem evaluation_idempotent:
  "onClick ee pt (world_of (onClick ee pt w)) = onClick ee pt w
   \<and> renderVisuals (world_of (renderVisuals w)) = renderVisuals w
   \<and> onParamsChange (world_of (onParamsChange w)) = onParamsChange w
   \<and> APP_STATE (world_of (renderVisuals w)) = APP_STATE w
   \<and> turbSlider (world_of (renderVisuals w)) = turbSlider w
   \<and> loadSlider (world_of (renderVisuals w)) = loadSlider w
   \<and> onClick ee pt (w\<lparr>APP_STATE := a, layers := l, statsPanel := s, chartPanel := c\<rparr>)
       = onClick ee pt w
   \<and> (hasData (APP_STATE w) \<longrightarrow>
        renderVisuals (w\<lparr>layers := l, statsPanel := s, chartPanel := c\<rparr>) = renderVisuals w)"
proof -
  have click: "onClick ee pt (world_of (onClick ee pt w)) = onClick ee pt w"
    by (cases "dailyData ee pt = []")
       (simp_all add: onClick_no_data onClick_data onClick_begin_def)
  have forget: "onClick ee pt (w\<lparr>APP_STATE := a, layers := l, statsPanel := s, chartPanel := c\<rparr>)
       = onClick ee pt w"
    by (cases "dailyData ee pt = []")
       (simp_all add: onClick_no_data onClick_data onClick_begin_def)
  have render: "renderVisuals (world_of (renderVisuals w)) = renderVisuals w
      \<and> APP_STATE (world_of (renderVisuals w)) = APP_STATE w
      \<and> turbSlider (world_of (renderVisuals w)) = turbSlider w
      \<and> loadSlider (world_of (renderVisuals w)) = loadSlider w"
    by (simp add: renderVisuals_def Let_def split: option.splits)
  have params: "onParamsChange (world_of (onParamsChange w)) = onParamsChange w"
    by (simp add: onParamsChange_def renderVisuals_def Let_def split: option.splits)
  have redraw: "renderVisuals (w\<lparr>layers := l, statsPanel := s, chartPanel := c\<rparr>) = renderVisuals w"
    if "hasData (APP_STATE w)"
    using that by (simp add: renderVisuals_def Let_def split: option.splits)
  show ?thesis using click forget render params redraw by simp
qed

text \<open>A second click on the site, a second rendering, and a rendering over stale panels.\<close>

theorem evaluation_idempotent_witness:
  "onClick one_day site (world_of (onClick one_day site initial_world))
     = onClick one_day site initial_world
   \<and> renderVisuals (world_of (renderVisuals (example_world 225 100)))
     = renderVisuals (example_world 225 100)
   \<and> renderVisuals ((example_world 225 100)\<lparr>layers := [], statsPanel := [Scanning_Site], chartPanel := []\<rparr>)
     = renderVisuals (example_world 225 100)"
  using evaluation_idempotent [where ee = one_day and pt = site and w = initial_world
          and a = reset_state and l = "[]" and s = "[Scanning_Site]" and c = "[]"]
        evaluation_idempotent [where ee = one_day and pt = site and w = "example_world 225 100"
          and a = reset_state and l = "[]" and s = "[Scanning_Site]" and c = "[]"]
  by (simp add: example_world_def example_state_def)

end
